theory Spec2Isabelle
  imports Main
begin

section \<open>The grid\<close>

text \<open>
  The class \<^verbatim>\<open>Sudoku\<close> of \<^verbatim>\<open>main.cpp\<close> holds
  \<^verbatim>\<open>std::array<std::array<int, N>, N> grid{}\<close> with \<^verbatim>\<open>N = 9\<close>. A grid is a list
  of rows, each a list of cells. The C++ type fixes the shape; here the shape is the
  predicate \<open>grid_shape\<close>. Cell values never leave the range of \<^verbatim>\<open>int\<close>, so they are
  unbounded integers.
\<close>

type_synonym grid = "int list list"

abbreviation N :: nat where
  "N \<equiv> 9"

definition grid_shape :: "grid \<Rightarrow> bool" where
  "grid_shape g \<longleftrightarrow> length g = N \<and> (\<forall>line \<in> set g. length line = N)"

text \<open>\<^verbatim>\<open>grid[row][col]\<close>, read and written.\<close>

definition cell :: "grid \<Rightarrow> nat \<Rightarrow> nat \<Rightarrow> int" where
  "cell g row col = g ! row ! col"

definition set_cell :: "grid \<Rightarrow> nat \<Rightarrow> nat \<Rightarrow> int \<Rightarrow> grid" where
  "set_cell g row col v = g[row := (g ! row)[col := v]]"

text \<open>The default member initialiser \<^verbatim>\<open>grid{}\<close>: every cell is 0.\<close>

definition empty_grid :: grid where
  "empty_grid = replicate N (replicate N 0)"

text \<open>The data model's range: a cell is 0 (empty) or a digit 1 to 9.\<close>

definition cells_in_range :: "grid \<Rightarrow> bool" where
  "cells_in_range g \<longleftrightarrow> (\<forall>line \<in> set g. \<forall>v \<in> set line. 0 \<le> v \<and> v \<le> 9)"

section \<open>Constraint queries\<close>

text \<open>
  \<^verbatim>\<open>isSafe\<close>: three loops, each returning false at the first cell that holds \<open>num\<close>.
  The loops run over the whole row, the whole column and the whole box.
\<close>

definition isSafe :: "grid \<Rightarrow> nat \<Rightarrow> nat \<Rightarrow> int \<Rightarrow> bool" where
  "isSafe g row col num =
     (if \<exists>j \<in> set [0..<N]. cell g row j = num then False
      else if \<exists>i \<in> set [0..<N]. cell g i col = num then False
      else
        let startRow = row - row mod 3;
            startCol = col - col mod 3
        in if \<exists>i \<in> set [0..<3]. \<exists>j \<in> set [0..<3].
                 cell g (startRow + i) (startCol + j) = num
           then False
           else True)"

text \<open>
  \<^verbatim>\<open>findEmptyCell\<close>: rows from the top, columns from the left, the first cell holding 0.
  The C++ returns a flag and the position through two references; here \<open>None\<close> is the
  flag false.
\<close>

definition findEmptyCell :: "grid \<Rightarrow> (nat \<times> nat) option" where
  "findEmptyCell g =
     find (\<lambda>(row, col). cell g row col = 0) (List.product [0..<N] [0..<N])"

section \<open>The solver's state\<close>

text \<open>
  The steady clock is outside the program: \<open>clk k\<close> is the value of the \<open>k\<close>-th call of
  \<^verbatim>\<open>steady_clock::now()\<close>, in nanoseconds. Nothing is assumed of it.
\<close>

type_synonym clock = "nat \<Rightarrow> int"

definition TIME_LIMIT :: int where
  "TIME_LIMIT = 5 * 1000000000"

text \<open>
  What the search does, step by step: a deadline check with its outcome, a candidate
  handed to \<open>isSafe\<close>, a placement, an undo.
\<close>

datatype event =
    Checked bool
  | Tried nat nat int
  | Placed nat nat int
  | Undone nat nat

text \<open>
  The fields of the class, and two ghost fields: \<open>clock_reads\<close> counts the calls of
  \<^verbatim>\<open>now()\<close> made so far, and \<open>trace\<close> lists the steps of the current \<^verbatim>\<open>solve\<close> call,
  each with the grid as it is right after the step.
\<close>

record sudoku =
  grid :: grid
  timed_out :: bool
  start_time :: int
  clock_reads :: nat
  trace :: "(event \<times> grid) list"

definition Sudoku :: "grid \<Rightarrow> sudoku" where
  "Sudoku g = \<lparr>grid = g, timed_out = False, start_time = 0, clock_reads = 0, trace = []\<rparr>"

definition logged :: "event \<Rightarrow> sudoku \<Rightarrow> sudoku" where
  "logged e s = s\<lparr>trace := trace s @ [(e, grid s)]\<rparr>"

text \<open>\<^verbatim>\<open>grid[row][col] = num\<close> and \<^verbatim>\<open>grid[row][col] = 0\<close>.\<close>

definition place :: "nat \<Rightarrow> nat \<Rightarrow> int \<Rightarrow> sudoku \<Rightarrow> sudoku" where
  "place row col num s = logged (Placed row col num) (s\<lparr>grid := set_cell (grid s) row col num\<rparr>)"

definition undo :: "nat \<Rightarrow> nat \<Rightarrow> sudoku \<Rightarrow> sudoku" where
  "undo row col s = logged (Undone row col) (s\<lparr>grid := set_cell (grid s) row col 0\<rparr>)"

text \<open>
  The test \<^verbatim>\<open>steady_clock::now() - start_time > TIME_LIMIT\<close> at the head of
  \<^verbatim>\<open>backtrack\<close>: one more reading of the clock.
\<close>

definition deadline_passed :: "clock \<Rightarrow> sudoku \<Rightarrow> bool" where
  "deadline_passed clk s \<longleftrightarrow> clk (clock_reads s) - start_time s > TIME_LIMIT"

definition tick :: "clock \<Rightarrow> sudoku \<Rightarrow> sudoku" where
  "tick clk s = logged (Checked (deadline_passed clk s)) (s\<lparr>clock_reads := Suc (clock_reads s)\<rparr>)"

section \<open>The search\<close>

text \<open>
  \<^verbatim>\<open>backtrack\<close> calls itself from inside its loop over the candidates. The model has
  one function for the body and one, \<open>try_from\<close>, for the loop from candidate \<open>num\<close> on.
  The argument \<open>depth\<close> is the number of nested calls the call stack still has room
  for: each recursive call of \<^verbatim>\<open>backtrack\<close> uses one, and \<open>None\<close> means that the stack
  was too small.
\<close>

function backtrack :: "clock \<Rightarrow> nat \<Rightarrow> sudoku \<Rightarrow> (bool \<times> sudoku) option"
  and try_from :: "clock \<Rightarrow> nat \<Rightarrow> nat \<Rightarrow> nat \<Rightarrow> int \<Rightarrow> sudoku \<Rightarrow> (bool \<times> sudoku) option"
where
  "backtrack clk depth s =
     (if deadline_passed clk s then Some (False, (tick clk s)\<lparr>timed_out := True\<rparr>)
      else
        case findEmptyCell (grid s) of
          None \<Rightarrow> Some (True, tick clk s)
        | Some (row, col) \<Rightarrow> try_from clk depth row col 1 (tick clk s))"
| "try_from clk depth row col num s =
     (if \<not> num \<le> 9 then Some (False, s)
      else if isSafe (grid s) row col num then
        (case depth of
           0 \<Rightarrow> None
         | Suc depth' \<Rightarrow>
             (case backtrack clk depth' (place row col num (logged (Tried row col num) s)) of
                None \<Rightarrow> None
              | Some (ok, s') \<Rightarrow>
                  if ok then Some (True, s')
                  else if timed_out s' then Some (False, s')
                  else try_from clk depth row col (num + 1) (undo row col s')))
      else try_from clk depth row col (num + 1) (logged (Tried row col num) s))"
  by pat_completeness auto
termination
  by (relation "inv_image (less_than <*lex*> less_than <*lex*> less_than)
        (\<lambda>x. case x of
           Inl (clk, depth, s) \<Rightarrow> (depth, 1::nat, 0::nat)
         | Inr (clk, depth, row, col, num, s) \<Rightarrow> (depth, 0, nat (10 - num)))")
     auto

text \<open>\<^verbatim>\<open>solve\<close>: read the clock, clear the flag, search.\<close>

definition solve :: "clock \<Rightarrow> nat \<Rightarrow> sudoku \<Rightarrow> (bool \<times> sudoku) option" where
  "solve clk depth s =
     backtrack clk depth
       (s\<lparr>start_time := clk (clock_reads s), clock_reads := Suc (clock_reads s),
          timed_out := False, trace := []\<rparr>)"

text \<open>
  The three outcomes, as \<^verbatim>\<open>main\<close> tells them apart: the value returned by
  \<^verbatim>\<open>solve\<close>, then \<^verbatim>\<open>hasTimedOut()\<close>.
\<close>

datatype SolveOutcome = Solved | Exhausted | TimedOut

definition outcome :: "bool \<times> sudoku \<Rightarrow> SolveOutcome" where
  "outcome res = (if fst res then Solved else if timed_out (snd res) then TimedOut else Exhausted)"

section \<open>Reading a grid from text\<close>

text \<open>
  The constructor \<^verbatim>\<open>Sudoku(const std::string& filename)\<close> reads the file line by
  line. The file system is outside the program: the model takes the file's contents.
  A file that cannot be opened behaves as an empty one, since the first
  \<^verbatim>\<open>std::getline\<close> fails on it.
\<close>

abbreviation newline :: char where
  "newline \<equiv> CHR 0x0A"

text \<open>
  \<^verbatim>\<open>std::getline(file, line)\<close>: fails when nothing is left; otherwise it takes the
  characters up to the next newline, which it drops, or up to the end.
\<close>

definition getline :: "string \<Rightarrow> (string \<times> string) option" where
  "getline inp =
     (if inp = [] then None
      else Some (takeWhile (\<lambda>c. c \<noteq> newline) inp,
                 drop 1 (dropWhile (\<lambda>c. c \<noteq> newline) inp)))"

text \<open>\<^verbatim>\<open>line.find(pat) != std::string::npos\<close>.\<close>

fun contains :: "string \<Rightarrow> string \<Rightarrow> bool" where
  "contains [] pat = (pat = [])"
| "contains (c # cs) pat = (take (length pat) (c # cs) = pat \<or> contains cs pat)"

text \<open>\<^verbatim>\<open>isdigit(c)\<close> in the C locale, and \<^verbatim>\<open>c - '0'\<close>.\<close>

definition isdigit :: "char \<Rightarrow> bool" where
  "isdigit c \<longleftrightarrow> (48::nat) \<le> of_char c \<and> of_char c \<le> (57::nat)"

definition digit_value :: "char \<Rightarrow> int" where
  "digit_value c = of_char c - 48"

text \<open>The loop \<^verbatim>\<open>for (char c : line)\<close> over the rest of a line, writing row \<open>i\<close>.\<close>

fun scan_line :: "string \<Rightarrow> nat \<Rightarrow> nat \<Rightarrow> grid \<Rightarrow> grid" where
  "scan_line [] i current_col g = g"
| "scan_line (c # cs) i current_col g =
     (if current_col \<ge> N then g
      else if c = CHR ''.'' then scan_line cs i (Suc current_col) (set_cell g i current_col 0)
      else if isdigit c then
        scan_line cs i (Suc current_col) (set_cell g i current_col (digit_value c))
      else scan_line cs i current_col g)"

lemma getline_shorter:
  assumes "getline inp = Some (line, rest)"
  shows "length rest < length inp"
proof -
  let ?d = "dropWhile (\<lambda>c. c \<noteq> newline) inp"
  from assms have ne: "inp \<noteq> []" and r: "rest = drop 1 ?d"
    by (auto simp: getline_def split: if_splits)
  have le: "length ?d \<le> length inp"
    by (rule length_dropWhile_le)
  show ?thesis
  proof (cases "?d = []")
    case True
    with ne r show ?thesis by simp
  next
    case False
    then have "length (drop 1 ?d) < length ?d" by simp
    with le r show ?thesis by simp
  qed
qed

text \<open>The loop \<^verbatim>\<open>while (i < N && std::getline(file, line))\<close>.\<close>

function read_lines :: "string \<Rightarrow> nat \<Rightarrow> grid \<Rightarrow> grid" where
  "read_lines inp i g =
     (if \<not> i < N then g
      else
        case getline inp of
          None \<Rightarrow> g
        | Some (line, rest) \<Rightarrow>
            if contains line ''---'' then read_lines rest i g
            else read_lines rest (Suc i) (scan_line line i 0 g))"
  by pat_completeness auto
termination
  by (relation "measure (\<lambda>(inp, i, g). length inp)") (auto dest: getline_shorter)

definition Sudoku_from_text :: "string \<Rightarrow> grid" where
  "Sudoku_from_text inp = read_lines inp 0 empty_grid"

section \<open>Writing a grid as text\<close>

text \<open>
  \<^verbatim>\<open>grid[i][j] ? static_cast<char>(grid[i][j] + '0') : '.'\<close>; the cast keeps the low
  eight bits.
\<close>

definition cell_char :: "int \<Rightarrow> char" where
  "cell_char v = (if v \<noteq> 0 then char_of (v + 48) else CHR ''.'')"

text \<open>The inner loop of \<^verbatim>\<open>toString\<close> with the newline that follows it, then the outer one.\<close>

definition row_text :: "grid \<Rightarrow> nat \<Rightarrow> string" where
  "row_text g i =
     concat (map (\<lambda>j. cell_char (cell g i j) #
                       (if (j + 1) mod 3 = 0 \<and> j + 1 \<noteq> N then ''|'' else []))
                 [0..<N])
     @ [newline]"

definition toString :: "grid \<Rightarrow> string" where
  "toString g =
     concat (map (\<lambda>i. row_text g i @
                       (if (i + 1) mod 3 = 0 \<and> i + 1 \<noteq> N then ''-----------'' @ [newline]
                        else []))
                 [0..<N])"

section \<open>What the specification says, in its own words\<close>

text \<open>
  \<open>is_placement_safe\<close> as the specification words it: the value does not occur
  elsewhere in the row, elsewhere in the column, or elsewhere in the box of the cell.
\<close>

definition spec_is_placement_safe :: "grid \<Rightarrow> nat \<Rightarrow> nat \<Rightarrow> int \<Rightarrow> bool" where
  "spec_is_placement_safe g row col v \<longleftrightarrow>
     (\<forall>j \<in> set [0..<N]. j \<noteq> col \<longrightarrow> cell g row j \<noteq> v) \<and>
     (\<forall>i \<in> set [0..<N]. i \<noteq> row \<longrightarrow> cell g i col \<noteq> v) \<and>
     (\<forall>i \<in> set [0..<N]. \<forall>j \<in> set [0..<N].
        i div 3 = row div 3 \<and> j div 3 = col div 3 \<and> (i, j) \<noteq> (row, col)
        \<longrightarrow> cell g i j \<noteq> v)"

text \<open>A grid that is empty but for a 5 in its top left corner, or in its centre.\<close>

definition corner_five :: grid where
  "corner_five = set_cell empty_grid 0 0 5"

definition centre_five :: grid where
  "centre_five = set_cell empty_grid 4 4 5"

section \<open>The placement test\<close>

lemma box_start_div: "i < 3 \<Longrightarrow> (row - row mod 3 + i) div 3 = row div (3::nat)"
  by (simp add: minus_mod_eq_mult_div)

lemma box_start_mod: "i div 3 = row div 3 \<Longrightarrow> row - row mod 3 + i mod (3::nat) = i"
proof -
  assume a: "i div 3 = row div 3"
  have "row - row mod 3 = 3 * (i div 3)" by (simp add: minus_mod_eq_mult_div a)
  then show ?thesis by simp
qed

lemma box_rows:
  "(\<exists>i \<in> set [0..<3]. P (row - row mod 3 + i)) \<longleftrightarrow> (\<exists>i. i div 3 = row div 3 \<and> P (i::nat))"
proof
  assume "\<exists>i \<in> set [0..<3]. P (row - row mod 3 + i)"
  then obtain i where i: "i < 3" "P (row - row mod 3 + i)" by auto
  from i(1) have "(row - row mod 3 + i) div 3 = row div 3" by (rule box_start_div)
  with i(2) show "\<exists>i. i div 3 = row div 3 \<and> P i" by blast
next
  assume "\<exists>i. i div 3 = row div 3 \<and> P i"
  then obtain i where i: "i div 3 = row div 3" "P i" by blast
  from i(1) have "row - row mod 3 + i mod 3 = i" by (rule box_start_mod)
  with i(2) have "P (row - row mod 3 + i mod 3)" by simp
  moreover have "i mod 3 \<in> set [0..<3]" by simp
  ultimately show "\<exists>i \<in> set [0..<3]. P (row - row mod 3 + i)" by (rule rev_bexI[rotated])
qed

lemma same_box_less: "k < N \<Longrightarrow> i div 3 = k div 3 \<Longrightarrow> i < N"
proof -
  assume a: "k < N" "i div 3 = k div 3"
  have "k div 3 < 3" using a(1) by (simp add: div_less_iff_less_mult)
  then have "i div 3 < 3" using a(2) by simp
  then show ?thesis by (simp add: div_less_iff_less_mult)
qed

lemma isSafe_iff_all:
  assumes "row < N" "col < N"
  shows "isSafe g row col v \<longleftrightarrow>
     (\<forall>j < N. cell g row j \<noteq> v) \<and> (\<forall>i < N. cell g i col \<noteq> v) \<and>
     (\<forall>i < N. \<forall>j < N. i div 3 = row div 3 \<and> j div 3 = col div 3 \<longrightarrow> cell g i j \<noteq> v)"
proof -
  have bounded: "(\<exists>i j. i div 3 = row div 3 \<and> j div 3 = col div 3 \<and> cell g i j = v)
     \<longleftrightarrow> (\<exists>i < N. \<exists>j < N. i div 3 = row div 3 \<and> j div 3 = col div 3 \<and> cell g i j = v)"
    using same_box_less[OF assms(1)] same_box_less[OF assms(2)] by blast
  have a: "\<And>i. (\<exists>j \<in> set [0..<3]. cell g i (col - col mod 3 + j) = v)
      \<longleftrightarrow> (\<exists>j. j div 3 = col div 3 \<and> cell g i j = v)"
    by (rule box_rows)
  have b: "(\<exists>i \<in> set [0..<3]. \<exists>j. j div 3 = col div 3 \<and> cell g (row - row mod 3 + i) j = v)
      \<longleftrightarrow> (\<exists>i. i div 3 = row div 3 \<and> (\<exists>j. j div 3 = col div 3 \<and> cell g i j = v))"
    by (rule box_rows)
  have box: "(\<exists>i \<in> set [0..<3]. \<exists>j \<in> set [0..<3].
        cell g (row - row mod 3 + i) (col - col mod 3 + j) = v)
     \<longleftrightarrow> (\<exists>i j. i div 3 = row div 3 \<and> j div 3 = col div 3 \<and> cell g i j = v)"
    unfolding a b by blast
  show ?thesis
    unfolding isSafe_def Let_def box bounded by auto
qed

text \<open>
  Claim C2, as the code has it. For a cell of the grid, \<open>isSafe\<close> is true exactly when
  the value occurs nowhere in the row, nowhere in the column and nowhere in the box,
  the cell itself included: it is the specification's test together with the test that
  the cell does not hold the value already.
\<close>

theorem isSafe_examines_own_cell:
  assumes "row < N" "col < N"
  shows "isSafe g row col v \<longleftrightarrow> cell g row col \<noteq> v \<and> spec_is_placement_safe g row col v"
  unfolding isSafe_iff_all[OF assms] spec_is_placement_safe_def
  using assms by (simp add: Ball_def) blast

theorem isSafe_examines_own_cell_witness:
  "(0::nat) < N \<and> isSafe centre_five 0 0 5 \<and> cell centre_five 0 0 \<noteq> 5
     \<and> spec_is_placement_safe centre_five 0 0 5"
proof -
  have "isSafe centre_five 0 0 5" by code_simp
  with isSafe_examines_own_cell[of 0 0 centre_five 5] show ?thesis by simp
qed

text \<open>
  Claim C2 as stated fails: with 5 stored in the corner and nowhere else, the
  specification's test holds for placing 5 in the corner, and \<open>isSafe\<close> is false.
\<close>

theorem isSafe_own_cell_counterexample:
  "spec_is_placement_safe corner_five 0 0 5 \<and> \<not> isSafe corner_five 0 0 5"
  by code_simp

end
